theory Spec2Isabelle
  imports Complex_Main
begin

section \<open>Data model\<close>

text \<open>
  The program is TypeScript. A JavaScript \<open>number\<close> is modelled as a \<open>real\<close>: the
  comparisons, the index arithmetic and the formulas of the source are kept as written,
  with exact arithmetic in place of IEEE rounding. The one constant of the number type
  that the source names, \<open>Number.MAX_VALUE\<close>, is kept with its exact value.

  A value of type \<open>any\<close> or \<open>number | string\<close> (a spreadsheet cell, a metric) is a
  \<open>jsval\<close>. A column of type \<open>(number | null)[]\<close> is a \<open>real option list\<close>, with
  \<open>None\<close> for \<open>null\<close>.
\<close>

datatype jsval = Undefined | Null | Bool bool | Num real | Str string

type_synonym numericColumn = "real option list"

text \<open>\<open>Number.MAX_VALUE\<close>, the largest finite double, is \<open>(2\<^sup>5\<^sup>3 - 1) * 2\<^sup>9\<^sup>7\<^sup>1\<close>.\<close>

definition MAX_VALUE :: real where
  "MAX_VALUE = 2 ^ 1024 - 2 ^ 971"

text \<open>The interfaces of \<open>types.ts\<close>.\<close>

record ThermalMetrics =
  timeTo100 :: jsval
  timeTo150 :: jsval
  timeTo180 :: jsval
  timeTo200 :: jsval
  tempAt1Min :: jsval
  tempAt2Min :: jsval
  tempAt5Min :: jsval
  tempAt10Min :: jsval

record PhysicalInputs =
  thickness :: real
  weightRaw :: real
  width :: real
  length_mm :: real
  heatSourceTemp :: string
  pressure :: string
  evaluationDate :: string
  remarks :: string

record CalculatedProperties =
  weightGsm :: real
  density :: real

text \<open>\<open>throw new Error(msg)\<close> is the value \<open>Inl (Error msg)\<close>.\<close>

datatype error = Error string

definition AnchorNotFound :: error where
  "AnchorNotFound = Error ''Could not find reference temperature in the data.''"

section \<open>Thermal metrics: \<open>processThermalData\<close>\<close>

text \<open>
  The anchor search, lines 36 to 48. The loop state is the pair
  \<open>(anchorIndex, minDiff)\<close>; \<open>i\<close> is the index of the head of the rest of the column.
\<close>

fun anchorLoop :: "numericColumn \<Rightarrow> real \<Rightarrow> int \<Rightarrow> int \<times> real \<Rightarrow> int \<times> real" where
  "anchorLoop [] refTempAt60s i (anchorIndex, minDiff) = (anchorIndex, minDiff)"
| "anchorLoop (temp # rest) refTempAt60s i (anchorIndex, minDiff) =
     (case temp of
        None \<Rightarrow> anchorLoop rest refTempAt60s (i + 1) (anchorIndex, minDiff)
      | Some t \<Rightarrow>
          (let diff = \<bar>t - refTempAt60s\<bar> in
           if diff < minDiff
           then anchorLoop rest refTempAt60s (i + 1) (i, diff)
           else anchorLoop rest refTempAt60s (i + 1) (anchorIndex, minDiff)))"

definition findAnchor :: "numericColumn \<Rightarrow> real \<Rightarrow> int" where
  "findAnchor tempData refTempAt60s = fst (anchorLoop tempData refTempAt60s 0 (- 1, MAX_VALUE))"

definition getTimeForIndex :: "int \<Rightarrow> int \<Rightarrow> int" where
  "getTimeForIndex anchorIndex idx = 60 + (idx - anchorIndex)"

definition getIndexForTime :: "int \<Rightarrow> int \<Rightarrow> int" where
  "getIndexForTime anchorIndex time = anchorIndex + (time - 60)"

text \<open>
  The closure \<open>findTimeForTemp\<close>, lines 57 to 65, with the captured \<open>tempData\<close> and
  \<open>anchorIndex\<close> as arguments; \<open>findTimeLoop\<close> is its \<open>for\<close> loop from index \<open>i\<close>.
\<close>

fun findTimeLoop :: "numericColumn \<Rightarrow> int \<Rightarrow> int \<Rightarrow> real \<Rightarrow> jsval" where
  "findTimeLoop [] i anchorIndex targetTemp = Str ''N/A''"
| "findTimeLoop (val # rest) i anchorIndex targetTemp =
     (case val of
        None \<Rightarrow> findTimeLoop rest (i + 1) anchorIndex targetTemp
      | Some v \<Rightarrow>
          if v \<ge> targetTemp then Num (of_int (getTimeForIndex anchorIndex i))
          else findTimeLoop rest (i + 1) anchorIndex targetTemp)"

definition findTimeForTemp :: "numericColumn \<Rightarrow> int \<Rightarrow> real \<Rightarrow> jsval" where
  "findTimeForTemp tempData anchorIndex targetTemp = findTimeLoop tempData 0 anchorIndex targetTemp"

text \<open>
  The closure \<open>findTempAtTime\<close>, lines 67 to 73. The source calls it with whole
  seconds only, so the time is an \<open>int\<close>.
\<close>

definition findTempAtTime :: "numericColumn \<Rightarrow> int \<Rightarrow> int \<Rightarrow> jsval" where
  "findTempAtTime tempData anchorIndex targetTime =
     (let idx = getIndexForTime anchorIndex targetTime in
      if idx \<ge> 0 \<and> idx < int (length tempData) then
        (case tempData ! nat idx of
           Some v \<Rightarrow> Num v
         | None \<Rightarrow> Str ''N/A'')
      else Str ''N/A'')"

definition processThermalData :: "numericColumn \<Rightarrow> real \<Rightarrow> error + ThermalMetrics" where
  "processThermalData tempData refTempAt60s =
     (let anchorIndex = findAnchor tempData refTempAt60s in
      if anchorIndex = - 1 then Inl AnchorNotFound
      else Inr \<lparr>
        timeTo100 = findTimeForTemp tempData anchorIndex 100,
        timeTo150 = findTimeForTemp tempData anchorIndex 150,
        timeTo180 = findTimeForTemp tempData anchorIndex 180,
        timeTo200 = findTimeForTemp tempData anchorIndex 200,
        tempAt1Min = findTempAtTime tempData anchorIndex 60,
        tempAt2Min = findTempAtTime tempData anchorIndex 120,
        tempAt5Min = findTempAtTime tempData anchorIndex 300,
        tempAt10Min = findTempAtTime tempData anchorIndex 600 \<rparr>)"

section \<open>Physical properties: \<open>calculatePhysicalProperties\<close>\<close>

text \<open>
  Lines 87 to 107, with the products and quotients taken exactly. The doubles of the
  source round each result, turn a product too small for a double into 0 and a result
  too large into \<open>Infinity\<close>; none of that is in this definition, and what is proved
  of it below is a statement in exact arithmetic.
\<close>

definition calculatePhysicalProperties :: "PhysicalInputs \<Rightarrow> CalculatedProperties" where
  "calculatePhysicalProperties inputs =
     (let areaM2 = (width inputs * length_mm inputs) / 1000000;
          weightGsm = (if areaM2 > 0 then weightRaw inputs / areaM2 else 0);
          massKg = weightRaw inputs / 1000;
          thicknessM = thickness inputs / 1000;
          volumeM3 = areaM2 * thicknessM;
          density = (if volumeM3 > 0 then massKg / volumeM3 else 0)
      in \<lparr> weightGsm = weightGsm, density = density \<rparr>)"

section \<open>Tabular reader: \<open>readExcelColumn\<close>\<close>

text \<open>
  \<open>sheet_to_json\<close> with \<open>header: 1\<close> gives an array of rows, each an array of cells.
  Reading a row at an index it does not have gives \<open>undefined\<close>.
\<close>

definition getCell :: "jsval list \<Rightarrow> int \<Rightarrow> jsval" where
  "getCell row colIndex =
     (if 0 \<le> colIndex \<and> colIndex < int (length row) then row ! nat colIndex else Undefined)"

text \<open>
  The builtin \<open>parseFloat\<close> turns its argument into a string and parses a leading
  decimal literal; \<open>None\<close> stands for \<open>NaN\<close>. \<open>undefined\<close>, \<open>null\<close> and the booleans
  print as words, which parse to \<open>NaN\<close>; a number prints and parses back to itself. What
  a string parses to is the builtin's business and is the parameter \<open>parseStr\<close>.
\<close>

definition parseFloat :: "(string \<Rightarrow> real option) \<Rightarrow> jsval \<Rightarrow> real option" where
  "parseFloat parseStr val =
     (case val of
        Undefined \<Rightarrow> None
      | Null \<Rightarrow> None
      | Bool b \<Rightarrow> None
      | Num x \<Rightarrow> Some x
      | Str s \<Rightarrow> parseStr s)"

text \<open>
  Lines 16 to 20: the \<open>map\<close> over the rows. \<open>isNaN(num) ? null : num\<close> is the
  identity on \<open>real option\<close>.
\<close>

definition readExcelColumn :: "(string \<Rightarrow> real option) \<Rightarrow> jsval list list \<Rightarrow> int \<Rightarrow> numericColumn" where
  "readExcelColumn parseStr jsonData colIndex =
     map (\<lambda>row.
            let val = getCell row colIndex;
                num = parseFloat parseStr val
            in (case num of None \<Rightarrow> None | Some x \<Rightarrow> Some x))
         jsonData"

section \<open>Template merge: \<open>appendToTemplate\<close>\<close>

text \<open>
  The merge step tests whether a row exists and assigns to row indices that may lie
  beyond the end of the array, which JavaScript answers by extending the array with
  holes. The grid is therefore a list of optional rows: \<open>None\<close> is a hole, and an index
  at or beyond the length reads as \<open>undefined\<close> too.
\<close>

type_synonym sheet = "jsval list option list"

definition getRow :: "sheet \<Rightarrow> nat \<Rightarrow> jsval list option" where
  "getRow sheetData i = (if i < length sheetData then sheetData ! i else None)"

definition setRow :: "sheet \<Rightarrow> nat \<Rightarrow> jsval list \<Rightarrow> sheet" where
  "setRow sheetData i row =
     (if i < length sheetData then sheetData[i := Some row]
      else sheetData @ replicate (i - length sheetData) None @ [Some row])"

text \<open>
  \<open>toFixed\<close> is a builtin on doubles; \<open>Number(x.toFixed(2))\<close> is the parameter \<open>fixed2\<close>.
  Lines 129 to 146.
\<close>

definition columnValues ::
  "(real \<Rightarrow> real) \<Rightarrow> string \<Rightarrow> ThermalMetrics \<Rightarrow> PhysicalInputs \<Rightarrow> CalculatedProperties \<Rightarrow> jsval list" where
  "columnValues fixed2 sampleName metrics physical calculated =
     [ Str (evaluationDate physical),
       Str sampleName,
       Num (fixed2 (weightGsm calculated)),
       Num (thickness physical),
       Num (fixed2 (density calculated)),
       Str (heatSourceTemp physical),
       Str (pressure physical),
       timeTo100 metrics,
       timeTo150 metrics,
       timeTo180 metrics,
       timeTo200 metrics,
       tempAt1Min metrics,
       tempAt2Min metrics,
       tempAt5Min metrics,
       tempAt10Min metrics,
       Str (remarks physical) ]"

text \<open>Lines 149 to 154: the first loop, over \<open>i = 0 ..< n\<close>.\<close>

definition maxColStep :: "sheet \<Rightarrow> nat \<Rightarrow> nat \<Rightarrow> nat" where
  "maxColStep sheetData i maxColCount =
     (case getRow sheetData i of
        Some row \<Rightarrow> max maxColCount (length row)
      | None \<Rightarrow> maxColCount)"

definition computeMaxColCount :: "sheet \<Rightarrow> nat \<Rightarrow> nat" where
  "computeMaxColCount sheetData n = fold (maxColStep sheetData) [0..<n] 0"

text \<open>Lines 164 to 166: \<open>while (row.length < maxColCount) row.push(null)\<close>.\<close>

function padRow :: "jsval list \<Rightarrow> nat \<Rightarrow> jsval list" where
  "padRow row maxColCount =
     (if length row < maxColCount then padRow (row @ [Null]) maxColCount else row)"
  by pat_completeness auto
termination
  by (relation "measure (\<lambda>(row, maxColCount). maxColCount - length row)") auto

declare padRow.simps [simp del]

text \<open>Lines 157 to 170: one iteration of the second loop, and the loop.\<close>

definition appendStep :: "jsval list \<Rightarrow> nat \<Rightarrow> nat \<Rightarrow> sheet \<Rightarrow> sheet" where
  "appendStep colVals maxColCount i sheetData =
     (let sheetData1 = (case getRow sheetData i of None \<Rightarrow> setRow sheetData i [] | Some r \<Rightarrow> sheetData);
          row = (case getRow sheetData1 i of Some r \<Rightarrow> r | None \<Rightarrow> []);
          padded = padRow row maxColCount
      in setRow sheetData1 i (padded @ [colVals ! i]))"

definition mergeColumn :: "sheet \<Rightarrow> jsval list \<Rightarrow> sheet" where
  "mergeColumn sheetData colVals =
     (let maxColCount = computeMaxColCount sheetData (length colVals)
      in fold (appendStep colVals maxColCount) [0..<length colVals] sheetData)"

text \<open>
  \<open>appendToTemplate\<close> between parsing the template (line 125) and serialising the
  grid (line 172).
\<close>

definition appendToTemplate ::
  "(real \<Rightarrow> real) \<Rightarrow> sheet \<Rightarrow> string \<Rightarrow> ThermalMetrics \<Rightarrow> PhysicalInputs \<Rightarrow> CalculatedProperties \<Rightarrow> sheet" where
  "appendToTemplate fixed2 sheetData sampleName metrics physical calculated =
     mergeColumn sheetData (columnValues fixed2 sampleName metrics physical calculated)"

section \<open>The anchor search and the two scans\<close>

lemma MAX_VALUE_pos: "0 < MAX_VALUE"
  by (simp add: MAX_VALUE_def)

lemma anchorLoop_unchanged:
  "(\<forall>t. Some t \<in> set xs \<longrightarrow> \<not> \<bar>t - r\<bar> < m) \<Longrightarrow> anchorLoop xs r i (a, m) = (a, m)"
  by (induction xs arbitrary: i) (auto split: option.splits)

lemma anchorLoop_found:
  "\<exists>t. Some t \<in> set xs \<and> \<bar>t - r\<bar> < m \<Longrightarrow>
   \<exists>k t. k < length xs \<and> xs ! k = Some t \<and> \<bar>t - r\<bar> < m \<and>
     anchorLoop xs r i (a, m) = (i + int k, \<bar>t - r\<bar>) \<and>
     (\<forall>w. Some w \<in> set xs \<longrightarrow> \<bar>t - r\<bar> \<le> \<bar>w - r\<bar>) \<and>
     (\<forall>w. Some w \<in> set (take k xs) \<longrightarrow> \<bar>t - r\<bar> < \<bar>w - r\<bar>)"
proof (induction xs arbitrary: i a m)
  case Nil
  then show ?case by simp
next
  case (Cons x xs)
  show ?case
  proof (cases x)
    case None
    with Cons.prems have ex: "\<exists>t. Some t \<in> set xs \<and> \<bar>t - r\<bar> < m" by auto
    from Cons.IH [OF ex, of "i + 1" a] obtain k t where
      kt: "k < length xs" "xs ! k = Some t" "\<bar>t - r\<bar> < m"
        "anchorLoop xs r (i + 1) (a, m) = (i + 1 + int k, \<bar>t - r\<bar>)"
        "\<forall>w. Some w \<in> set xs \<longrightarrow> \<bar>t - r\<bar> \<le> \<bar>w - r\<bar>"
        "\<forall>w. Some w \<in> set (take k xs) \<longrightarrow> \<bar>t - r\<bar> < \<bar>w - r\<bar>"
      by blast
    show ?thesis
      apply (rule exI [of _ "Suc k"], rule exI [of _ t])
      using kt None by auto
  next
    case (Some t0)
    show ?thesis
    proof (cases "\<bar>t0 - r\<bar> < m")
      case True
      show ?thesis
      proof (cases "\<exists>t. Some t \<in> set xs \<and> \<bar>t - r\<bar> < \<bar>t0 - r\<bar>")
        case ex: True
        from Cons.IH [OF ex, of "i + 1" i] obtain k t where
          kt: "k < length xs" "xs ! k = Some t" "\<bar>t - r\<bar> < \<bar>t0 - r\<bar>"
            "anchorLoop xs r (i + 1) (i, \<bar>t0 - r\<bar>) = (i + 1 + int k, \<bar>t - r\<bar>)"
            "\<forall>w. Some w \<in> set xs \<longrightarrow> \<bar>t - r\<bar> \<le> \<bar>w - r\<bar>"
            "\<forall>w. Some w \<in> set (take k xs) \<longrightarrow> \<bar>t - r\<bar> < \<bar>w - r\<bar>"
          by blast
        show ?thesis
          apply (rule exI [of _ "Suc k"], rule exI [of _ t])
          using kt Some True by auto
      next
        case nex: False
        then have un: "anchorLoop xs r (i + 1) (i, \<bar>t0 - r\<bar>) = (i, \<bar>t0 - r\<bar>)"
          by (intro anchorLoop_unchanged) blast
        show ?thesis
          apply (rule exI [of _ 0], rule exI [of _ t0])
          using un Some True nex by (auto simp: not_less)
      qed
    next
      case False
      with Cons.prems Some have ex: "\<exists>t. Some t \<in> set xs \<and> \<bar>t - r\<bar> < m" by auto
      from Cons.IH [OF ex, of "i + 1" a] obtain k t where
        kt: "k < length xs" "xs ! k = Some t" "\<bar>t - r\<bar> < m"
          "anchorLoop xs r (i + 1) (a, m) = (i + 1 + int k, \<bar>t - r\<bar>)"
          "\<forall>w. Some w \<in> set xs \<longrightarrow> \<bar>t - r\<bar> \<le> \<bar>w - r\<bar>"
          "\<forall>w. Some w \<in> set (take k xs) \<longrightarrow> \<bar>t - r\<bar> < \<bar>w - r\<bar>"
        by blast
      show ?thesis
        apply (rule exI [of _ "Suc k"], rule exI [of _ t])
        using kt Some False by auto
    qed
  qed
qed

lemma findTimeLoop_none:
  "(\<forall>w. Some w \<in> set xs \<longrightarrow> w < T) \<Longrightarrow> findTimeLoop xs i a T = Str ''N/A''"
  by (induction xs arbitrary: i) (auto split: option.splits)

lemma findTimeLoop_found:
  "k < length xs \<Longrightarrow> xs ! k = Some v \<Longrightarrow> T \<le> v \<Longrightarrow>
   (\<forall>w. Some w \<in> set (take k xs) \<longrightarrow> w < T) \<Longrightarrow>
   findTimeLoop xs i a T = Num (of_int (60 + (i + int k - a)))"
proof (induction xs arbitrary: i k)
  case Nil
  then show ?case by simp
next
  case (Cons x xs)
  show ?case
  proof (cases k)
    case 0
    with Cons.prems show ?thesis by (simp add: getTimeForIndex_def)
  next
    case (Suc k')
    with Cons.prems have a: "k' < length xs" "xs ! k' = Some v"
      "\<forall>w. Some w \<in> set (take k' xs) \<longrightarrow> w < T" by auto
    from Suc Cons.prems have hd: "\<forall>w. x = Some w \<longrightarrow> w < T" by auto
    from Cons.IH [OF a(1) a(2) Cons.prems(3) a(3), of "i + 1"] hd Suc
    show ?thesis by (auto split: option.splits)
  qed
qed

lemma set_take_nth: "y \<in> set (take k xs) \<longleftrightarrow> (\<exists>j<k. j < length xs \<and> xs ! j = y)"
  by (auto simp: in_set_conv_nth)

lemma findAnchor_cases:
  "(findAnchor td r = - 1 \<and> (\<forall>t. Some t \<in> set td \<longrightarrow> MAX_VALUE \<le> \<bar>t - r\<bar>)) \<or>
   (\<exists>k t. k < length td \<and> td ! k = Some t \<and> \<bar>t - r\<bar> < MAX_VALUE \<and>
      findAnchor td r = int k \<and>
      (\<forall>w. Some w \<in> set td \<longrightarrow> \<bar>t - r\<bar> \<le> \<bar>w - r\<bar>) \<and>
      (\<forall>w. Some w \<in> set (take k td) \<longrightarrow> \<bar>t - r\<bar> < \<bar>w - r\<bar>))"
proof (cases "\<exists>t. Some t \<in> set td \<and> \<bar>t - r\<bar> < MAX_VALUE")
  case True
  from anchorLoop_found [OF True, of 0 "- 1"] show ?thesis
    by (auto simp: findAnchor_def)
next
  case False
  then have "anchorLoop td r 0 (- 1, MAX_VALUE) = (- 1, MAX_VALUE)"
    by (intro anchorLoop_unchanged) blast
  with False show ?thesis by (auto simp: findAnchor_def not_less)
qed

lemma findAnchor_argmin:
  assumes "i0 < length td" "td ! i0 = Some t0" "\<bar>t0 - r\<bar> < MAX_VALUE"
  shows "\<exists>k t. findAnchor td r = int k \<and> k < length td \<and> td ! k = Some t \<and>
      (\<forall>j<length td. \<forall>w. td ! j = Some w \<longrightarrow> \<bar>t - r\<bar> \<le> \<bar>w - r\<bar>) \<and>
      (\<forall>j<k. \<forall>w. td ! j = Some w \<longrightarrow> \<bar>t - r\<bar> < \<bar>w - r\<bar>)"
proof -
  from assms have mem: "Some t0 \<in> set td" by (metis nth_mem)
  with assms(3) findAnchor_cases [of td r] obtain k t where
    kt: "k < length td" "td ! k = Some t" "findAnchor td r = int k"
      "\<forall>w. Some w \<in> set td \<longrightarrow> \<bar>t - r\<bar> \<le> \<bar>w - r\<bar>"
      "\<forall>w. Some w \<in> set (take k td) \<longrightarrow> \<bar>t - r\<bar> < \<bar>w - r\<bar>"
    by (auto simp: not_le)
  have a: "\<forall>j<length td. \<forall>w. td ! j = Some w \<longrightarrow> \<bar>t - r\<bar> \<le> \<bar>w - r\<bar>"
    using kt(4) by (metis nth_mem)
  have b: "\<forall>j<k. \<forall>w. td ! j = Some w \<longrightarrow> \<bar>t - r\<bar> < \<bar>w - r\<bar>"
  proof (intro allI impI)
    fix j w assume "j < k" "td ! j = Some w"
    with kt(1) have "Some w \<in> set (take k td)"
      by (auto simp: set_take_nth)
    with kt(5) show "\<bar>t - r\<bar> < \<bar>w - r\<bar>" by blast
  qed
  from kt a b show ?thesis by blast
qed

lemma findAnchor_defined:
  "findAnchor td r \<noteq> - 1 \<Longrightarrow>
   \<exists>k t. findAnchor td r = int k \<and> k < length td \<and> td ! k = Some t"
  using findAnchor_cases [of td r] by auto

lemma processThermalData_Inr:
  "processThermalData td r = Inr m \<Longrightarrow>
   findAnchor td r \<noteq> - 1 \<and>
   timeTo100 m = findTimeForTemp td (findAnchor td r) 100 \<and>
   timeTo150 m = findTimeForTemp td (findAnchor td r) 150 \<and>
   timeTo180 m = findTimeForTemp td (findAnchor td r) 180 \<and>
   timeTo200 m = findTimeForTemp td (findAnchor td r) 200 \<and>
   tempAt1Min m = findTempAtTime td (findAnchor td r) 60 \<and>
   tempAt2Min m = findTempAtTime td (findAnchor td r) 120 \<and>
   tempAt5Min m = findTempAtTime td (findAnchor td r) 300 \<and>
   tempAt10Min m = findTempAtTime td (findAnchor td r) 600"
  by (auto simp: processThermalData_def Let_def split: if_splits)

lemma findTimeForTemp_found:
  assumes "i < length td" "td ! i = Some v" "T \<le> v"
    "\<forall>j<i. \<forall>w. td ! j = Some w \<longrightarrow> w < T"
  shows "findTimeForTemp td a T = Num (of_int (60 + (int i - a)))"
proof -
  have "\<forall>w. Some w \<in> set (take i td) \<longrightarrow> w < T"
    using assms(4) by (auto simp: set_take_nth)
  from findTimeLoop_found [OF assms(1) assms(2) assms(3) this, of 0 a]
  show ?thesis by (simp add: findTimeForTemp_def)
qed

lemma findTimeForTemp_none:
  assumes "\<forall>i<length td. \<forall>w. td ! i = Some w \<longrightarrow> w < T"
  shows "findTimeForTemp td a T = Str ''N/A''"
proof -
  have "\<forall>w. Some w \<in> set td \<longrightarrow> w < T"
    using assms by (auto simp: in_set_conv_nth)
  then show ?thesis unfolding findTimeForTemp_def by (rule findTimeLoop_none)
qed

lemma example_anchor: "findAnchor [Some 90, Some 95, Some 100, Some 105, Some 110] 100 = 2"
  by (simp add: findAnchor_def MAX_VALUE_def)

lemma example_run:
  "processThermalData [Some 90, Some 95, Some 100, Some 105, Some 110] 100 =
     Inr \<lparr> timeTo100 = Num 60, timeTo150 = Str ''N/A'', timeTo180 = Str ''N/A'',
           timeTo200 = Str ''N/A'', tempAt1Min = Num 100, tempAt2Min = Str ''N/A'',
           tempAt5Min = Str ''N/A'', tempAt10Min = Str ''N/A'' \<rparr>"
  by (simp add: processThermalData_def example_anchor findTimeForTemp_def findTempAtTime_def
      getTimeForIndex_def getIndexForTime_def)


text \<open>
  With the distances computed exactly: when the search does find an anchor it is the
  earliest index whose present value is nearest to the reference
  (\<open>findAnchor_argmin\<close>), and the run fails exactly when no present value lies within
  \<open>Number.MAX_VALUE\<close> of the reference. The doubles of the source round each distance,
  so they can tie two distances that differ and can round one up to \<open>Number.MAX_VALUE\<close>.
\<close>

lemma processThermalData_fails_iff:
  "processThermalData td r = Inl e \<longleftrightarrow>
     e = AnchorNotFound \<and> (\<forall>t. Some t \<in> set td \<longrightarrow> MAX_VALUE \<le> \<bar>t - r\<bar>)"
proof -
  from findAnchor_cases [of td r] consider
    (none) "findAnchor td r = - 1" "\<forall>t. Some t \<in> set td \<longrightarrow> MAX_VALUE \<le> \<bar>t - r\<bar>"
  | (some) k t where "k < length td" "td ! k = Some t" "\<bar>t - r\<bar> < MAX_VALUE"
      "findAnchor td r = int k"
    by blast
  then show ?thesis
  proof cases
    case none
    then show ?thesis by (auto simp: processThermalData_def)
  next
    case some
    from some(1,2) have "Some t \<in> set td" by (metis nth_mem)
    with some(3) have "\<not> (\<forall>t. Some t \<in> set td \<longrightarrow> MAX_VALUE \<le> \<bar>t - r\<bar>)"
      by (auto simp: not_le)
    with some(4) show ?thesis by (auto simp: processThermalData_def Let_def)
  qed
qed

lemma all_absent_fails:
  "\<forall>x\<in>set td. x = None \<Longrightarrow> processThermalData td r = Inl AnchorNotFound"
  by (auto simp: processThermalData_fails_iff)

lemma example_anchor_19: "findAnchor [Some 18, Some 20, Some 19, None, Some 25] 19 = 2"
  by (simp add: findAnchor_def MAX_VALUE_def)

section \<open>Time to reach a temperature\<close>

text \<open>
  Claim C2. When \<open>processThermalData\<close> succeeds, each "time to reach" field is
  \<open>findTimeForTemp\<close> at its temperature and the anchor found; and for every target
  temperature \<open>T\<close>, \<open>findTimeForTemp\<close> is \<open>60 + (i - anchorIndex)\<close> for the smallest
  index \<open>i\<close>, counted from row 0, whose value is present and at least \<open>T\<close>, and is
  \<open>"N/A"\<close> when no present value is at least \<open>T\<close>.
\<close>

theorem timeToReach_first_crossing:
  "processThermalData tempData refTempAt60s = Inr m \<Longrightarrow>
   timeTo100 m = findTimeForTemp tempData (findAnchor tempData refTempAt60s) 100 \<and>
   timeTo150 m = findTimeForTemp tempData (findAnchor tempData refTempAt60s) 150 \<and>
   timeTo180 m = findTimeForTemp tempData (findAnchor tempData refTempAt60s) 180 \<and>
   timeTo200 m = findTimeForTemp tempData (findAnchor tempData refTempAt60s) 200 \<and>
   (\<forall>T.
     (\<forall>i<length tempData. \<forall>v.
        tempData ! i = Some v \<and> T \<le> v \<and> (\<forall>j<i. \<forall>w. tempData ! j = Some w \<longrightarrow> w < T) \<longrightarrow>
        findTimeForTemp tempData (findAnchor tempData refTempAt60s) T =
          Num (of_int (60 + (int i - findAnchor tempData refTempAt60s)))) \<and>
     ((\<forall>i<length tempData. \<forall>w. tempData ! i = Some w \<longrightarrow> w < T) \<longrightarrow>
        findTimeForTemp tempData (findAnchor tempData refTempAt60s) T = Str ''N/A''))"
proof -
  assume run: "processThermalData tempData refTempAt60s = Inr m"
  have crossing: "findTimeForTemp tempData a T = Num (of_int (60 + (int i - a)))"
    if "i < length tempData"
      and "tempData ! i = Some v \<and> T \<le> v \<and> (\<forall>j<i. \<forall>w. tempData ! j = Some w \<longrightarrow> w < T)"
    for a T i v
    using that by (intro findTimeForTemp_found [of i tempData v T a]) blast+
  have never: "findTimeForTemp tempData a T = Str ''N/A''"
    if "\<forall>i<length tempData. \<forall>w. tempData ! i = Some w \<longrightarrow> w < T" for a T
    using that by (rule findTimeForTemp_none)
  from processThermalData_Inr [OF run] crossing never show ?thesis
    by blast
qed


theorem timeToReach_first_crossing_witness:
  "processThermalData [Some 90, Some 95, Some 100, Some 105, Some 110] 100 =
     Inr \<lparr> timeTo100 = Num 60, timeTo150 = Str ''N/A'', timeTo180 = Str ''N/A'',
           timeTo200 = Str ''N/A'', tempAt1Min = Num 100, tempAt2Min = Str ''N/A'',
           tempAt5Min = Str ''N/A'', tempAt10Min = Str ''N/A'' \<rparr> \<and>
   findTimeForTemp [Some 90, Some 95, Some 100, Some 105, Some 110]
     (findAnchor [Some 90, Some 95, Some 100, Some 105, Some 110] 100) 100 = Num 60 \<and>
   findTimeForTemp [Some 90, Some 95, Some 100, Some 105, Some 110]
     (findAnchor [Some 90, Some 95, Some 100, Some 105, Some 110] 100) 150 = Str ''N/A''"
  using timeToReach_first_crossing [OF example_run]
  by (simp add: example_run)

text \<open>
  Claim C3. For the column \<open>[90, 95, 100, 105, 110]\<close> and a reference temperature
  that puts the anchor at index 2 (reference 100 does), the run succeeds and the time
  to reach 100 is not 62.
\<close>

theorem timeTo100_example_not_62:
  "findAnchor [Some 90, Some 95, Some 100, Some 105, Some 110] 100 = 2 \<and>
   \<not> isl (processThermalData [Some 90, Some 95, Some 100, Some 105, Some 110] 100) \<and>
   timeTo100 (projr (processThermalData [Some 90, Some 95, Some 100, Some 105, Some 110] 100)) \<noteq> Num 62"
  by (simp add: example_run example_anchor)

text \<open>
  Claim C3, as the code has it. For the column \<open>[90, 95, 100, 105, 110]\<close> and every
  reference temperature that puts the anchor at index 2, the run succeeds and the time
  to reach 100 is 60: the first value at least 100 is at index 2, the anchor row itself.
\<close>

theorem timeTo100_example_is_60:
  "findAnchor [Some 90, Some 95, Some 100, Some 105, Some 110] refTempAt60s = 2 \<Longrightarrow>
   \<exists>m. processThermalData [Some 90, Some 95, Some 100, Some 105, Some 110] refTempAt60s = Inr m \<and>
       timeTo100 m = Num 60"
  by (simp add: processThermalData_def findTimeForTemp_def getTimeForIndex_def)

theorem timeTo100_example_is_60_witness:
  "findAnchor [Some 90, Some 95, Some 100, Some 105, Some 110] 100 = 2 \<and>
   (\<exists>m. processThermalData [Some 90, Some 95, Some 100, Some 105, Some 110] 100 = Inr m \<and>
       timeTo100 m = Num 60)"
  using timeTo100_example_is_60 [OF example_anchor] example_anchor by simp

section \<open>Temperature at an elapsed time\<close>

text \<open>
  Claim C4. For every column, anchor index and elapsed time \<open>S\<close>, \<open>findTempAtTime\<close>
  looks at index \<open>anchorIndex + (S - 60)\<close>: a present value \<open>v\<close> there, within the
  bounds of the column, is returned as it is, and an index out of bounds or an absent
  value gives \<open>"N/A"\<close>. The four "temperature at" fields of a successful run are
  \<open>findTempAtTime\<close> at 60, 120, 300 and 600 seconds and the anchor found. For
  \<open>[90, 95, 100, 105, 110]\<close> with the anchor at index 2 the temperature at 58 seconds
  is 90 and at 200 seconds it is \<open>"N/A"\<close>.
\<close>

theorem tempAtTime_lookup:
  "(\<forall>v. 0 \<le> anchorIndex + (S - 60) \<and> anchorIndex + (S - 60) < int (length tempData) \<and>
        tempData ! nat (anchorIndex + (S - 60)) = Some v \<longrightarrow>
        findTempAtTime tempData anchorIndex S = Num v) \<and>
   (anchorIndex + (S - 60) < 0 \<or> int (length tempData) \<le> anchorIndex + (S - 60) \<or>
        tempData ! nat (anchorIndex + (S - 60)) = None \<longrightarrow>
        findTempAtTime tempData anchorIndex S = Str ''N/A'') \<and>
   (\<forall>m. processThermalData tempData refTempAt60s = Inr m \<longrightarrow>
        tempAt1Min m = findTempAtTime tempData (findAnchor tempData refTempAt60s) 60 \<and>
        tempAt2Min m = findTempAtTime tempData (findAnchor tempData refTempAt60s) 120 \<and>
        tempAt5Min m = findTempAtTime tempData (findAnchor tempData refTempAt60s) 300 \<and>
        tempAt10Min m = findTempAtTime tempData (findAnchor tempData refTempAt60s) 600) \<and>
   findTempAtTime [Some 90, Some 95, Some 100, Some 105, Some 110] 2 58 = Num 90 \<and>
   findTempAtTime [Some 90, Some 95, Some 100, Some 105, Some 110] 2 200 = Str ''N/A''"
proof -
  have a: "findTempAtTime tempData anchorIndex S = Num v"
    if "0 \<le> anchorIndex + (S - 60) \<and> anchorIndex + (S - 60) < int (length tempData) \<and>
        tempData ! nat (anchorIndex + (S - 60)) = Some v" for v
    using that by (simp add: findTempAtTime_def getIndexForTime_def)
  have b: "findTempAtTime tempData anchorIndex S = Str ''N/A''"
    if "anchorIndex + (S - 60) < 0 \<or> int (length tempData) \<le> anchorIndex + (S - 60) \<or>
        tempData ! nat (anchorIndex + (S - 60)) = None"
    using that by (auto simp: findTempAtTime_def getIndexForTime_def Let_def)
  have c: "tempAt1Min m = findTempAtTime tempData (findAnchor tempData refTempAt60s) 60 \<and>
        tempAt2Min m = findTempAtTime tempData (findAnchor tempData refTempAt60s) 120 \<and>
        tempAt5Min m = findTempAtTime tempData (findAnchor tempData refTempAt60s) 300 \<and>
        tempAt10Min m = findTempAtTime tempData (findAnchor tempData refTempAt60s) 600"
    if "processThermalData tempData refTempAt60s = Inr m" for m
    using processThermalData_Inr [OF that] by simp
  have d: "findTempAtTime [Some 90, Some 95, Some 100, Some 105, Some 110] 2 58 = Num 90"
    by (simp add: findTempAtTime_def getIndexForTime_def)
  have e: "findTempAtTime [Some 90, Some 95, Some 100, Some 105, Some 110] 2 200 = Str ''N/A''"
    by (simp add: findTempAtTime_def getIndexForTime_def)
  from a b c d e show ?thesis by blast
qed

theorem tempAtTime_lookup_witness:
  "findTempAtTime [Some 90, Some 95, Some 100, Some 105, Some 110] 2 61 = Num 105 \<and>
   findTempAtTime [Some 90, None, Some 100, Some 105, Some 110] 2 59 = Str ''N/A'' \<and>
   findTempAtTime [Some 90, Some 95, Some 100, Some 105, Some 110] 2 57 = Str ''N/A'' \<and>
   tempAt1Min \<lparr> timeTo100 = Num 60, timeTo150 = Str ''N/A'', timeTo180 = Str ''N/A'',
           timeTo200 = Str ''N/A'', tempAt1Min = Num 100, tempAt2Min = Str ''N/A'',
           tempAt5Min = Str ''N/A'', tempAt10Min = Str ''N/A'' \<rparr> =
     findTempAtTime [Some 90, Some 95, Some 100, Some 105, Some 110]
       (findAnchor [Some 90, Some 95, Some 100, Some 105, Some 110] 100) 60"
  using tempAtTime_lookup [of 2 61 "[Some 90, Some 95, Some 100, Some 105, Some 110]" 100]
    tempAtTime_lookup [of 2 59 "[Some 90, None, Some 100, Some 105, Some 110]" 100]
    tempAtTime_lookup [of 2 57 "[Some 90, Some 95, Some 100, Some 105, Some 110]" 100]
    example_run
  by simp

text \<open>
  Claim C10. Whenever \<open>processThermalData\<close> succeeds, the temperature at 60 seconds
  is not \<open>"N/A"\<close>: the index for time 60 is the anchor index, the anchor index lies
  within the column, the value there is present, and the field holds exactly that value.
\<close>

theorem tempAt1Min_is_anchor_value:
  "processThermalData tempData refTempAt60s = Inr m \<Longrightarrow>
   tempAt1Min m \<noteq> Str ''N/A'' \<and>
   getIndexForTime (findAnchor tempData refTempAt60s) 60 = findAnchor tempData refTempAt60s \<and>
   (\<exists>k v. findAnchor tempData refTempAt60s = int k \<and> k < length tempData \<and>
      tempData ! k = Some v \<and> tempAt1Min m = Num v)"
proof -
  assume run: "processThermalData tempData refTempAt60s = Inr m"
  from processThermalData_Inr [OF run] have
    def: "findAnchor tempData refTempAt60s \<noteq> - 1" and
    fld: "tempAt1Min m = findTempAtTime tempData (findAnchor tempData refTempAt60s) 60"
    by simp_all
  from findAnchor_defined [OF def] obtain k v where
    kv: "findAnchor tempData refTempAt60s = int k" "k < length tempData" "tempData ! k = Some v"
    by blast
  have "tempAt1Min m = Num v"
    using fld kv by (simp add: findTempAtTime_def getIndexForTime_def)
  with kv show ?thesis by (auto simp: getIndexForTime_def)
qed

theorem tempAt1Min_is_anchor_value_witness:
  "processThermalData [Some 18, Some 20, Some 19, None, Some 25] 19 =
     Inr \<lparr> timeTo100 = Str ''N/A'', timeTo150 = Str ''N/A'', timeTo180 = Str ''N/A'',
           timeTo200 = Str ''N/A'', tempAt1Min = Num 19, tempAt2Min = Str ''N/A'',
           tempAt5Min = Str ''N/A'', tempAt10Min = Str ''N/A'' \<rparr> \<and>
   findAnchor [Some 18, Some 20, Some 19, None, Some 25] 19 = 2 \<and>
   [Some 18, Some 20, Some 19, None, Some 25] ! 2 = Some (19 :: real)"
proof -
  have run: "processThermalData [Some 18, Some 20, Some 19, None, Some 25] 19 =
     Inr \<lparr> timeTo100 = Str ''N/A'', timeTo150 = Str ''N/A'', timeTo180 = Str ''N/A'',
           timeTo200 = Str ''N/A'', tempAt1Min = Num 19, tempAt2Min = Str ''N/A'',
           tempAt5Min = Str ''N/A'', tempAt10Min = Str ''N/A'' \<rparr>"
    by (simp add: processThermalData_def example_anchor_19 findTimeForTemp_def
        findTempAtTime_def getIndexForTime_def)
  from tempAt1Min_is_anchor_value [OF run] run example_anchor_19 show ?thesis by simp
qed

section \<open>The anchor search at the edge of the number range\<close>

text \<open>
  Claim C1. The column \<open>[Number.MAX_VALUE]\<close> has a present value at index 0, which is
  then the nearest to any reference; with reference 0 its distance is
  \<open>Number.MAX_VALUE\<close>, the test \<open>diff < minDiff\<close> against the initial \<open>minDiff\<close> fails,
  and the search ends with \<open>anchorIndex = -1\<close>: no index is chosen.
\<close>

theorem anchor_missed_at_MAX_VALUE: "findAnchor [Some MAX_VALUE] 0 = - 1"
  using MAX_VALUE_pos by (simp add: findAnchor_def)

text \<open>
  Claim C5. For the column \<open>[Number.MAX_VALUE]\<close>, which has a present entry, and
  reference 0, \<open>processThermalData\<close> fails with the anchor-not-found error.
\<close>

theorem present_value_yet_AnchorNotFound:
  "processThermalData [Some MAX_VALUE] 0 = Inl AnchorNotFound"
  using MAX_VALUE_pos by (simp add: processThermalData_def findAnchor_def)

section \<open>Physical properties\<close>

text \<open>
  Claim C8. With width -1000, length 1000, weight 500 and thickness 1 the area is
  -1, which is not 0, and the areal weight computed is not \<open>weight / area\<close>.
\<close>

theorem negative_area_gives_zero:
  "weightGsm (calculatePhysicalProperties
      \<lparr> thickness = 1, weightRaw = 500, width = - 1000, length_mm = 1000,
        heatSourceTemp = '''', pressure = '''', evaluationDate = '''', remarks = '''' \<rparr>)
     \<noteq> 500 / ((- 1000 * 1000) / 1000000) \<and>
   (- 1000 * 1000) / 1000000 \<noteq> (0 :: real)"
  by (simp add: calculatePhysicalProperties_def)

text \<open>
  Claim C8, as the code has it, in exact arithmetic: with the formulas of the code
  evaluated exactly, leaving aside the rounding, underflow and overflow of doubles. For
  all inputs the areal weight is \<open>weight / area\<close> when the area
  \<open>(width * length) / 1000000\<close> is positive and 0 otherwise, and the density is
  \<open>(weight / 1000) / volume\<close> when the volume \<open>area * (thickness / 1000)\<close> is positive
  and 0 otherwise; both are 0 when the area is 0, and the density is 0 when the volume
  is 0. Width 1000, length 1000, weight 500 and thickness 1 give areal weight 500 and
  density 500; width 0 gives 0 and 0.
\<close>

theorem physical_properties_formulas:
  "weightGsm (calculatePhysicalProperties inputs) =
     (if width inputs * length_mm inputs / 1000000 > 0
      then weightRaw inputs / (width inputs * length_mm inputs / 1000000) else 0) \<and>
   density (calculatePhysicalProperties inputs) =
     (if (width inputs * length_mm inputs / 1000000) * (thickness inputs / 1000) > 0
      then (weightRaw inputs / 1000) /
           ((width inputs * length_mm inputs / 1000000) * (thickness inputs / 1000))
      else 0) \<and>
   (width inputs * length_mm inputs / 1000000 = 0 \<longrightarrow>
      weightGsm (calculatePhysicalProperties inputs) = 0 \<and>
      density (calculatePhysicalProperties inputs) = 0) \<and>
   ((width inputs * length_mm inputs / 1000000) * (thickness inputs / 1000) = 0 \<longrightarrow>
      density (calculatePhysicalProperties inputs) = 0) \<and>
   (width inputs = 1000 \<and> length_mm inputs = 1000 \<and> weightRaw inputs = 500 \<and>
    thickness inputs = 1 \<longrightarrow>
      weightGsm (calculatePhysicalProperties inputs) = 500 \<and>
      density (calculatePhysicalProperties inputs) = 500) \<and>
   (width inputs = 0 \<longrightarrow>
      weightGsm (calculatePhysicalProperties inputs) = 0 \<and>
      density (calculatePhysicalProperties inputs) = 0)"
  by (simp add: calculatePhysicalProperties_def Let_def)

theorem physical_properties_formulas_witness:
  "calculatePhysicalProperties
      \<lparr> thickness = 1, weightRaw = 500, width = 1000, length_mm = 1000,
        heatSourceTemp = '''', pressure = '''', evaluationDate = '''', remarks = '''' \<rparr> =
     \<lparr> weightGsm = 500, density = 500 \<rparr> \<and>
   calculatePhysicalProperties
      \<lparr> thickness = 1, weightRaw = 500, width = 0, length_mm = 1000,
        heatSourceTemp = '''', pressure = '''', evaluationDate = '''', remarks = '''' \<rparr> =
     \<lparr> weightGsm = 0, density = 0 \<rparr> \<and>
   calculatePhysicalProperties
      \<lparr> thickness = 0, weightRaw = 500, width = 1000, length_mm = 1000,
        heatSourceTemp = '''', pressure = '''', evaluationDate = '''', remarks = '''' \<rparr> =
     \<lparr> weightGsm = 500, density = 0 \<rparr>"
  using
    physical_properties_formulas [of "\<lparr> thickness = 1, weightRaw = 500, width = 1000,
      length_mm = 1000, heatSourceTemp = '''', pressure = '''', evaluationDate = '''',
      remarks = '''' \<rparr>"]
    physical_properties_formulas [of "\<lparr> thickness = 1, weightRaw = 500, width = 0,
      length_mm = 1000, heatSourceTemp = '''', pressure = '''', evaluationDate = '''',
      remarks = '''' \<rparr>"]
    physical_properties_formulas [of "\<lparr> thickness = 0, weightRaw = 500, width = 1000,
      length_mm = 1000, heatSourceTemp = '''', pressure = '''', evaluationDate = '''',
      remarks = '''' \<rparr>"]
  by (simp add: calculatePhysicalProperties_def)

section \<open>Column extraction\<close>

lemma readExcelColumn_nth:
  "i < length jsonData \<Longrightarrow>
   readExcelColumn parseStr jsonData colIndex ! i =
     parseFloat parseStr (getCell (jsonData ! i) colIndex)"
  by (simp add: readExcelColumn_def Let_def split: option.splits)

text \<open>
  Claim C9. The extracted column has one entry per row of the grid, in row order:
  its length is the number of rows and entry \<open>i\<close> is \<open>parseFloat\<close> of the cell of row
  \<open>i\<close> at the column index. A row that has no cell at that index, and a cell that
  \<open>parseFloat\<close> does not turn into a number, give the absent marker \<open>None\<close> for that
  row; the extraction has no failing branch.
\<close>

theorem readExcelColumn_one_entry_per_row:
  "length (readExcelColumn parseStr jsonData colIndex) = length jsonData \<and>
   (\<forall>i<length jsonData.
      readExcelColumn parseStr jsonData colIndex ! i =
        parseFloat parseStr (getCell (jsonData ! i) colIndex)) \<and>
   (\<forall>i<length jsonData.
      colIndex < 0 \<or> int (length (jsonData ! i)) \<le> colIndex \<longrightarrow>
      readExcelColumn parseStr jsonData colIndex ! i = None) \<and>
   (\<forall>i<length jsonData.
      parseFloat parseStr (getCell (jsonData ! i) colIndex) = None \<longrightarrow>
      readExcelColumn parseStr jsonData colIndex ! i = None)"
proof -
  have len: "length (readExcelColumn parseStr jsonData colIndex) = length jsonData"
    by (simp add: readExcelColumn_def)
  have missing: "readExcelColumn parseStr jsonData colIndex ! i = None"
    if "i < length jsonData" "colIndex < 0 \<or> int (length (jsonData ! i)) \<le> colIndex" for i
    using that by (auto simp: readExcelColumn_nth getCell_def parseFloat_def)
  from len missing show ?thesis by (simp add: readExcelColumn_nth)
qed

theorem readExcelColumn_one_entry_per_row_witness:
  "readExcelColumn (\<lambda>s. if s = ''20.5'' then Some 20.5 else None)
     [[Num 1, Num 2, Num 3, Num 18], [Str ''t''], [Null, Null, Null, Str ''abc''],
      [Null, Null, Null, Str ''20.5''], []] 3 =
     [Some 18, None, None, Some 20.5, None]"
  using readExcelColumn_one_entry_per_row [of "\<lambda>s. if s = ''20.5'' then Some 20.5 else None"
     "[[Num 1, Num 2, Num 3, Num 18], [Str ''t''], [Null, Null, Null, Str ''abc''],
      [Null, Null, Null, Str ''20.5''], []]" 3]
  by (simp add: readExcelColumn_def getCell_def parseFloat_def)

section \<open>Template merge\<close>

lemma getRow_setRow:
  "getRow (setRow sheetData i row) j = (if j = i then Some row else getRow sheetData j)"
  by (auto simp: getRow_def setRow_def nth_append)

lemma length_setRow: "length (setRow sheetData i row) = max (length sheetData) (Suc i)"
  by (auto simp: setRow_def)

lemma padRow_eq: "padRow row m = row @ replicate (m - length row) Null"
proof (induction row m rule: padRow.induct)
  case (1 row m)
  show ?case
  proof (cases "length row < m")
    case True
    then have "m - length row = Suc (m - Suc (length row))" by simp
    with True "1.IH" show ?thesis
      by (subst padRow.simps) (simp add: replicate_app_Cons_same)
  next
    case False
    then show ?thesis by (subst padRow.simps) simp
  qed
qed

lemma getRow_appendStep:
  "getRow (appendStep colVals m i sheetData) j =
     (if j = i
      then Some (padRow (case getRow sheetData i of Some r \<Rightarrow> r | None \<Rightarrow> []) m @ [colVals ! i])
      else getRow sheetData j)"
  by (auto simp: appendStep_def Let_def getRow_setRow split: option.splits)

lemma length_appendStep:
  "length (appendStep colVals m i sheetData) = max (length sheetData) (Suc i)"
  by (auto simp: appendStep_def Let_def length_setRow split: option.splits)

lemma getRow_appendLoop:
  "getRow (fold (appendStep colVals m) [0..<n] sheetData) j =
     (if j < n
      then Some (padRow (case getRow sheetData j of Some r \<Rightarrow> r | None \<Rightarrow> []) m @ [colVals ! j])
      else getRow sheetData j)"
  by (induction n) (auto simp: getRow_appendStep)

lemma length_appendLoop:
  "length (fold (appendStep colVals m) [0..<n] sheetData) = max (length sheetData) n"
  by (induction n) (auto simp: length_appendStep)

lemma computeMaxColCount_Suc:
  "computeMaxColCount sheetData (Suc n) = maxColStep sheetData n (computeMaxColCount sheetData n)"
  by (simp add: computeMaxColCount_def)

lemma computeMaxColCount_upper:
  "i < n \<Longrightarrow> getRow sheetData i = Some r \<Longrightarrow> length r \<le> computeMaxColCount sheetData n"
proof (induction n)
  case 0
  then show ?case by simp
next
  case (Suc n)
  show ?case
  proof (cases "i = n")
    case True
    with Suc.prems show ?thesis
      by (simp add: computeMaxColCount_Suc maxColStep_def)
  next
    case False
    with Suc.prems have "i < n" by simp
    from Suc.IH [OF this Suc.prems(2)] show ?thesis
      by (auto simp: computeMaxColCount_Suc maxColStep_def split: option.splits)
  qed
qed

lemma computeMaxColCount_attained:
  "computeMaxColCount sheetData n = 0 \<or>
   (\<exists>i<n. \<exists>r. getRow sheetData i = Some r \<and> length r = computeMaxColCount sheetData n)"
proof (induction n)
  case 0
  then show ?case by (simp add: computeMaxColCount_def)
next
  case (Suc n)
  show ?case
  proof (cases "getRow sheetData n")
    case None
    with Suc show ?thesis
      by (auto simp: computeMaxColCount_Suc maxColStep_def less_Suc_eq)
  next
    case (Some r)
    show ?thesis
    proof (cases "computeMaxColCount sheetData n \<le> length r")
      case True
      with Some have "computeMaxColCount sheetData (Suc n) = length r"
        by (simp add: computeMaxColCount_Suc maxColStep_def max_def)
      with Some show ?thesis by auto
    next
      case False
      with Some have "computeMaxColCount sheetData (Suc n) = computeMaxColCount sheetData n"
        by (simp add: computeMaxColCount_Suc maxColStep_def max_def)
      with Suc show ?thesis by (auto simp: less_Suc_eq)
    qed
  qed
qed

lemma getRow_mergeColumn:
  "getRow (mergeColumn sheetData colVals) j =
     (if j < length colVals
      then Some ((case getRow sheetData j of Some r \<Rightarrow> r | None \<Rightarrow> []) @
                 replicate (computeMaxColCount sheetData (length colVals) -
                            length (case getRow sheetData j of Some r \<Rightarrow> r | None \<Rightarrow> [])) Null @
                 [colVals ! j])
      else getRow sheetData j)"
  by (simp add: mergeColumn_def Let_def getRow_appendLoop padRow_eq)

lemma length_columnValues:
  "length (columnValues fixed2 sampleName metrics physical calculated) = 16"
  by (simp add: columnValues_def)

lemma getRow_appendToTemplate:
  "getRow (appendToTemplate fixed2 sheetData sampleName metrics physical calculated) j =
     (if j < 16
      then Some ((case getRow sheetData j of Some r \<Rightarrow> r | None \<Rightarrow> []) @
                 replicate (computeMaxColCount sheetData 16 -
                            length (case getRow sheetData j of Some r \<Rightarrow> r | None \<Rightarrow> [])) Null @
                 [columnValues fixed2 sampleName metrics physical calculated ! j])
      else getRow sheetData j)"
  by (simp add: appendToTemplate_def getRow_mergeColumn length_columnValues)

lemma existing_row_le_max:
  "i < n \<Longrightarrow>
   length (case getRow sheetData i of Some r \<Rightarrow> r | None \<Rightarrow> []) \<le> computeMaxColCount sheetData n"
  by (auto split: option.splits dest: computeMaxColCount_upper)

lemma length_appendToTemplate:
  "length (appendToTemplate fixed2 sheetData sampleName metrics physical calculated) =
     max (length sheetData) 16"
  by (simp add: appendToTemplate_def mergeColumn_def Let_def length_appendLoop length_columnValues)

lemma drop_appendToTemplate:
  "drop 16 (appendToTemplate fixed2 sheetData sampleName metrics physical calculated) =
     drop 16 sheetData"
proof (rule nth_equalityI)
  show "length (drop 16 (appendToTemplate fixed2 sheetData sampleName metrics physical calculated)) =
      length (drop 16 sheetData)"
    by (simp add: length_appendToTemplate)
next
  fix k
  assume "k < length (drop 16 (appendToTemplate fixed2 sheetData sampleName metrics physical calculated))"
  then have k: "16 + k < length sheetData"
    by (simp add: length_appendToTemplate)
  then have k': "16 + k < length (appendToTemplate fixed2 sheetData sampleName metrics physical calculated)"
    by (simp add: length_appendToTemplate)
  have "getRow (appendToTemplate fixed2 sheetData sampleName metrics physical calculated) (16 + k) =
      getRow sheetData (16 + k)"
    by (simp add: getRow_appendToTemplate)
  with k k' have "appendToTemplate fixed2 sheetData sampleName metrics physical calculated ! (16 + k) =
      sheetData ! (16 + k)"
    by (simp add: getRow_def)
  with k k' show "drop 16 (appendToTemplate fixed2 sheetData sampleName metrics physical calculated) ! k =
      drop 16 sheetData ! k"
    by simp
qed

lemma upt_16: "[0..<16] = [0, 1, 2, 3, 4, 5, 6, 7, 8, 9, 10, 11, 12, 13, 14, 15]"
  by code_simp

text \<open>
  A template with rows of lengths 3, 1 and 0, two missing rows and a sixth row, merged
  with a list of five values: \<open>maxColCount\<close> is 3, rows 0 to 4 end with length 4 and
  the sixth row is as it was.
\<close>

lemma upt_5: "[0..<5] = [0, 1, 2, 3, 4]"
  by code_simp

lemma mergeColumn_example:
  "mergeColumn
     [Some [Str ''a'', Str ''b'', Str ''c''], Some [Str ''d''], Some [], None, None,
      Some [Str ''f'']]
     [Num 1, Num 2, Num 3, Num 4, Num 5] =
   [Some [Str ''a'', Str ''b'', Str ''c'', Num 1],
    Some [Str ''d'', Null, Null, Num 2],
    Some [Null, Null, Null, Num 3],
    Some [Null, Null, Null, Num 4],
    Some [Null, Null, Null, Num 5],
    Some [Str ''f'']]"
  by (simp add: mergeColumn_def computeMaxColCount_def maxColStep_def upt_5 appendStep_def
      getRow_def setRow_def padRow_eq Let_def)

text \<open>
  Claim C6. For every template grid, \<open>maxColCount\<close> is the maximum length of the rows
  that exist among rows 0 to 15 (at least each such length, and either 0 or the length
  of one of them); and after the merge each of rows 0 to 15 exists and is its old
  content (empty if the row was missing) padded on the right with \<open>null\<close> up to
  \<open>maxColCount\<close> and followed by its new value, so that it has length
  \<open>maxColCount + 1\<close> and holds the new value at column index \<open>maxColCount\<close>.
\<close>

theorem merge_aligns_new_column:
  "(\<forall>i<16. \<forall>r. getRow sheetData i = Some r \<longrightarrow> length r \<le> computeMaxColCount sheetData 16) \<and>
   (computeMaxColCount sheetData 16 = 0 \<or>
    (\<exists>i<16. \<exists>r. getRow sheetData i = Some r \<and> length r = computeMaxColCount sheetData 16)) \<and>
   (\<forall>i<16. \<exists>row.
      getRow (appendToTemplate fixed2 sheetData sampleName metrics physical calculated) i = Some row \<and>
      row = (case getRow sheetData i of Some r \<Rightarrow> r | None \<Rightarrow> []) @
            replicate (computeMaxColCount sheetData 16 -
                       length (case getRow sheetData i of Some r \<Rightarrow> r | None \<Rightarrow> [])) Null @
            [columnValues fixed2 sampleName metrics physical calculated ! i] \<and>
      length row = computeMaxColCount sheetData 16 + 1 \<and>
      row ! computeMaxColCount sheetData 16 =
        columnValues fixed2 sampleName metrics physical calculated ! i)"
proof (intro conjI allI impI)
  fix i r assume "i < 16" "getRow sheetData i = Some r"
  then show "length r \<le> computeMaxColCount sheetData 16"
    by (rule computeMaxColCount_upper)
next
  show "computeMaxColCount sheetData 16 = 0 \<or>
    (\<exists>i<16. \<exists>r. getRow sheetData i = Some r \<and> length r = computeMaxColCount sheetData 16)"
    by (rule computeMaxColCount_attained)
next
  fix i :: nat assume i: "i < 16"
  define old where "old = (case getRow sheetData i of Some r \<Rightarrow> r | None \<Rightarrow> [])"
  define M where "M = computeMaxColCount sheetData 16"
  define v where "v = columnValues fixed2 sampleName metrics physical calculated ! i"
  have le: "length old \<le> M"
    unfolding old_def M_def using i by (rule existing_row_le_max)
  have row: "getRow (appendToTemplate fixed2 sheetData sampleName metrics physical calculated) i =
      Some (old @ replicate (M - length old) Null @ [v])"
    using i by (simp add: getRow_appendToTemplate old_def M_def v_def)
  have len: "length (old @ replicate (M - length old) Null @ [v]) = M + 1"
    using le by simp
  have "(old @ replicate (M - length old) Null @ [v]) ! M = v"
    using le by (simp add: nth_append)
  with row len show "\<exists>row.
      getRow (appendToTemplate fixed2 sheetData sampleName metrics physical calculated) i = Some row \<and>
      row = (case getRow sheetData i of Some r \<Rightarrow> r | None \<Rightarrow> []) @
            replicate (computeMaxColCount sheetData 16 -
                       length (case getRow sheetData i of Some r \<Rightarrow> r | None \<Rightarrow> [])) Null @
            [columnValues fixed2 sampleName metrics physical calculated ! i] \<and>
      length row = computeMaxColCount sheetData 16 + 1 \<and>
      row ! computeMaxColCount sheetData 16 =
        columnValues fixed2 sampleName metrics physical calculated ! i"
    unfolding old_def M_def v_def by blast
qed

theorem merge_aligns_new_column_witness:
  "computeMaxColCount [Some [Str ''a'', Str ''b'', Str ''c''], Some [Str ''d''], Some []] 16 = 3 \<and>
   appendToTemplate (\<lambda>x. x)
     [Some [Str ''a'', Str ''b'', Str ''c''], Some [Str ''d''], Some []] ''S1''
     \<lparr> timeTo100 = Num 60, timeTo150 = Str ''N/A'', timeTo180 = Str ''N/A'',
       timeTo200 = Str ''N/A'', tempAt1Min = Num 100, tempAt2Min = Str ''N/A'',
       tempAt5Min = Str ''N/A'', tempAt10Min = Str ''N/A'' \<rparr>
     \<lparr> thickness = 1, weightRaw = 500, width = 1000, length_mm = 1000,
       heatSourceTemp = ''h'', pressure = ''p'', evaluationDate = ''e'', remarks = ''r'' \<rparr>
     \<lparr> weightGsm = 500, density = 500 \<rparr> =
   [Some [Str ''a'', Str ''b'', Str ''c'', Str ''e''],
    Some [Str ''d'', Null, Null, Str ''S1''],
    Some [Null, Null, Null, Num 500],
    Some [Null, Null, Null, Num 1],
    Some [Null, Null, Null, Num 500],
    Some [Null, Null, Null, Str ''h''],
    Some [Null, Null, Null, Str ''p''],
    Some [Null, Null, Null, Num 60],
    Some [Null, Null, Null, Str ''N/A''],
    Some [Null, Null, Null, Str ''N/A''],
    Some [Null, Null, Null, Str ''N/A''],
    Some [Null, Null, Null, Num 100],
    Some [Null, Null, Null, Str ''N/A''],
    Some [Null, Null, Null, Str ''N/A''],
    Some [Null, Null, Null, Str ''N/A''],
    Some [Null, Null, Null, Str ''r'']]"
  using merge_aligns_new_column [of
     "[Some [Str ''a'', Str ''b'', Str ''c''], Some [Str ''d''], Some []]" "\<lambda>x. x" "''S1''"
     "\<lparr> timeTo100 = Num 60, timeTo150 = Str ''N/A'', timeTo180 = Str ''N/A'',
       timeTo200 = Str ''N/A'', tempAt1Min = Num 100, tempAt2Min = Str ''N/A'',
       tempAt5Min = Str ''N/A'', tempAt10Min = Str ''N/A'' \<rparr>"
     "\<lparr> thickness = 1, weightRaw = 500, width = 1000, length_mm = 1000,
       heatSourceTemp = ''h'', pressure = ''p'', evaluationDate = ''e'', remarks = ''r'' \<rparr>"
     "\<lparr> weightGsm = 500, density = 500 \<rparr>"]
  by (simp add: appendToTemplate_def mergeColumn_def columnValues_def computeMaxColCount_def
      maxColStep_def upt_16 appendStep_def getRow_def setRow_def padRow_eq Let_def)

text \<open>
  Claim C7. The merge leaves every row with index 16 or more as it was, and in each
  existing row among rows 0 to 15 every old cell keeps its value and its position: the
  new row is the old row followed by \<open>null\<close> padding and the one new value.
\<close>

theorem merge_leaves_other_cells:
  "drop 16 (appendToTemplate fixed2 sheetData sampleName metrics physical calculated) =
     drop 16 sheetData \<and>
   (\<forall>j\<ge>16. getRow (appendToTemplate fixed2 sheetData sampleName metrics physical calculated) j =
      getRow sheetData j) \<and>
   (\<forall>i<16. \<forall>r. getRow sheetData i = Some r \<longrightarrow>
      (\<exists>row. getRow (appendToTemplate fixed2 sheetData sampleName metrics physical calculated) i =
          Some row \<and>
        row = r @ replicate (computeMaxColCount sheetData 16 - length r) Null @
              [columnValues fixed2 sampleName metrics physical calculated ! i] \<and>
        take (length r) row = r \<and>
        (\<forall>c<length r. row ! c = r ! c)))"
proof (intro conjI allI impI)
  show "drop 16 (appendToTemplate fixed2 sheetData sampleName metrics physical calculated) =
     drop 16 sheetData"
    by (rule drop_appendToTemplate)
next
  fix j :: nat assume "16 \<le> j"
  then show "getRow (appendToTemplate fixed2 sheetData sampleName metrics physical calculated) j =
      getRow sheetData j"
    by (simp add: getRow_appendToTemplate)
next
  fix i :: nat and r assume i: "i < 16" and r: "getRow sheetData i = Some r"
  then have "getRow (appendToTemplate fixed2 sheetData sampleName metrics physical calculated) i =
      Some (r @ replicate (computeMaxColCount sheetData 16 - length r) Null @
              [columnValues fixed2 sampleName metrics physical calculated ! i])"
    by (simp add: getRow_appendToTemplate)
  then show "\<exists>row. getRow (appendToTemplate fixed2 sheetData sampleName metrics physical calculated) i =
          Some row \<and>
        row = r @ replicate (computeMaxColCount sheetData 16 - length r) Null @
              [columnValues fixed2 sampleName metrics physical calculated ! i] \<and>
        take (length r) row = r \<and>
        (\<forall>c<length r. row ! c = r ! c)"
    by (simp add: nth_append)
qed

theorem merge_leaves_other_cells_witness:
  "appendToTemplate (\<lambda>x. x)
     [Some [Str ''a'', Str ''b'', Str ''c''], Some [Str ''d''], Some [],
      None, None, None, None, None, None, None, None, None, None, None, None, None,
      Some [Str ''keep'']] ''S1''
     \<lparr> timeTo100 = Num 60, timeTo150 = Str ''N/A'', timeTo180 = Str ''N/A'',
       timeTo200 = Str ''N/A'', tempAt1Min = Num 100, tempAt2Min = Str ''N/A'',
       tempAt5Min = Str ''N/A'', tempAt10Min = Str ''N/A'' \<rparr>
     \<lparr> thickness = 1, weightRaw = 500, width = 1000, length_mm = 1000,
       heatSourceTemp = ''h'', pressure = ''p'', evaluationDate = ''e'', remarks = ''r'' \<rparr>
     \<lparr> weightGsm = 500, density = 500 \<rparr> =
   [Some [Str ''a'', Str ''b'', Str ''c'', Str ''e''],
    Some [Str ''d'', Null, Null, Str ''S1''],
    Some [Null, Null, Null, Num 500],
    Some [Null, Null, Null, Num 1],
    Some [Null, Null, Null, Num 500],
    Some [Null, Null, Null, Str ''h''],
    Some [Null, Null, Null, Str ''p''],
    Some [Null, Null, Null, Num 60],
    Some [Null, Null, Null, Str ''N/A''],
    Some [Null, Null, Null, Str ''N/A''],
    Some [Null, Null, Null, Str ''N/A''],
    Some [Null, Null, Null, Num 100],
    Some [Null, Null, Null, Str ''N/A''],
    Some [Null, Null, Null, Str ''N/A''],
    Some [Null, Null, Null, Str ''N/A''],
    Some [Null, Null, Null, Str ''r''],
    Some [Str ''keep'']]"
  using merge_leaves_other_cells [of "\<lambda>x. x"
     "[Some [Str ''a'', Str ''b'', Str ''c''], Some [Str ''d''], Some [],
      None, None, None, None, None, None, None, None, None, None, None, None, None,
      Some [Str ''keep'']]" "''S1''"
     "\<lparr> timeTo100 = Num 60, timeTo150 = Str ''N/A'', timeTo180 = Str ''N/A'',
       timeTo200 = Str ''N/A'', tempAt1Min = Num 100, tempAt2Min = Str ''N/A'',
       tempAt5Min = Str ''N/A'', tempAt10Min = Str ''N/A'' \<rparr>"
     "\<lparr> thickness = 1, weightRaw = 500, width = 1000, length_mm = 1000,
       heatSourceTemp = ''h'', pressure = ''p'', evaluationDate = ''e'', remarks = ''r'' \<rparr>"
     "\<lparr> weightGsm = 500, density = 500 \<rparr>"]
  by (simp add: appendToTemplate_def mergeColumn_def columnValues_def computeMaxColCount_def
      maxColStep_def upt_16 appendStep_def getRow_def setRow_def padRow_eq Let_def)

end
